theory Spec2Isabelle
  imports Complex_Main "HOL-Library.AList"
begin

section \<open>The benchmark runner of red-queen (\<^verbatim>\<open>src/red_queen/runner.py\<close>)\<close>

text \<open>
  The class \<^verbatim>\<open>Runner\<close> compiles every benchmark circuit \<^verbatim>\<open>num_runs\<close> times, records
  timing, memory and depth samples in the dictionary \<^verbatim>\<open>metric_data\<close>, reduces the samples
  to aggregate statistics and writes the dictionary to a JSON file.

  Conventions of the embedding:
  \<^item> a raised Python exception is the left summand of a sum type;
  \<^item> a Python \<^verbatim>\<open>dict\<close> whose key order is observable is an association list in insertion
    order (\<^const>\<open>AList.update\<close> overwrites in place and appends a new key at the end, as a
    Python dictionary does);
  \<^item> what the code reads from its environment (clock readings, the memory profiler,
    the compiler's output, the file system) is an explicit argument;
  \<^item> a Python float is the real number it stands for, and an arithmetic operation of the
    code on floats returns the exact result rounded to binary64.
\<close>

datatype error =
  ValueError | IndexError | KeyError | TypeError | UnboundLocalError
  | FileNotFoundError | JSONDecodeError | AttributeError

subsection \<open>Binary64 arithmetic\<close>

text \<open>
  A finite binary64 number is \<open>m * 2 ^ e\<close> for integers \<open>\<bar>m\<bar> < 2 ^ 53\<close> and
  \<open>- 1074 \<le> e \<le> 971\<close>. Python's \<^verbatim>\<open>+\<close>, \<^verbatim>\<open>-\<close>, \<^verbatim>\<open>*\<close> and \<^verbatim>\<open>/\<close> on floats return the exact result
  rounded to the nearest such number, and to the one with the even \<open>m\<close> when two are
  equally near. The multiples of \<open>2 ^ e\<close> among which a real number \<open>x\<close> is rounded are those
  of the least \<open>e\<close>, from \<open>- 1074\<close> on, with \<open>\<bar>x\<bar> < 2 ^ 53 * 2 ^ e\<close>. The infinities and
  NaN are not part of the model: an exact result of magnitude \<open>2 ^ 1024 - 2 ^ 970\<close> or
  more, for which binary64 gives an infinity, is rounded among the multiples of
  \<open>2 ^ 971\<close>. Clock readings and memory readings are far below.
\<close>

function exponent_from :: "int \<Rightarrow> real \<Rightarrow> int" where
  "exponent_from e x =
     (if e < 971 \<and> 2 ^ 53 * 2 powi e \<le> \<bar>x\<bar> then exponent_from (e + 1) x else e)"
  by pat_completeness auto
termination
  by (relation "measure (\<lambda>(e, x). nat (971 - e))") auto

declare exponent_from.simps [simp del]

definition exponent :: "real \<Rightarrow> int" where
  "exponent x = exponent_from (- 1074) x"

definition round_half_even :: "real \<Rightarrow> int" where
  "round_half_even y =
     (let f = \<lfloor>y\<rfloor> in
      if y - of_int f < 1 / 2 then f
      else if 1 / 2 < y - of_int f then f + 1
      else if even f then f else f + 1)"

definition binary64 :: "real \<Rightarrow> real" where
  "binary64 x = of_int (round_half_even (x / 2 powi exponent x)) * 2 powi exponent x"

definition fadd :: "real \<Rightarrow> real \<Rightarrow> real" where
  "fadd x y = binary64 (x + y)"

definition fsub :: "real \<Rightarrow> real \<Rightarrow> real" where
  "fsub x y = binary64 (x - y)"

definition fmul :: "real \<Rightarrow> real \<Rightarrow> real" where
  "fmul x y = binary64 (x * y)"

definition fdiv :: "real \<Rightarrow> real \<Rightarrow> real" where
  "fdiv x y = binary64 (x / y)"

subsection \<open>Depth analysis (\<^verbatim>\<open>get_qubit_depths\<close>, \<^verbatim>\<open>get_maximum_qubit_depth\<close>, \<^verbatim>\<open>get_circuit_depth\<close>)\<close>

text \<open>
  The argument \<^verbatim>\<open>benchmark\<close> of the three functions is an object of the class
  \<^verbatim>\<open>Preprocess\<close> (module \<^verbatim>\<open>preprocessing\<close>), of which the runner uses four members: the
  list \<^verbatim>\<open>processed_qasm\<close> of operation lines, the methods \<^verbatim>\<open>get_op\<close> and \<^verbatim>\<open>get_qubit_id\<close>
  and the table \<^verbatim>\<open>GATE_TABLE\<close>, tested only for membership of an operation name. The
  members are the fields of a record; the types of lines \<open>'g\<close> and of qubit ids \<open>'q\<close>
  are left open, and the two methods are taken to return normally.
\<close>

record ('g, 'q) Preprocess =
  processed_qasm :: "'g list"
  get_op :: "'g \<Rightarrow> string"
  get_qubit_id :: "'g \<Rightarrow> 'q list"
  GATE_TABLE :: "string list"

type_synonym 'q qubit_depth = "('q \<times> nat) list"

text \<open>
  The body of the inner loop:
  \<^verbatim>\<open>if qubit not in qubit_depth: qubit_depth[qubit] = 0\<close> followed by
  \<^verbatim>\<open>qubit_depth[qubit] += 1\<close>. After the first statement the key is present, so the
  \<open>None\<close> branch of the second is never taken.
\<close>

definition count_qubit :: "'q \<Rightarrow> 'q qubit_depth \<Rightarrow> 'q qubit_depth" where
  "count_qubit qubit qubit_depth =
     (let d0 = (if map_of qubit_depth qubit = None
                then AList.update qubit 0 qubit_depth else qubit_depth)
      in case map_of d0 qubit of
           Some v \<Rightarrow> AList.update qubit (v + 1) d0
         | None \<Rightarrow> d0)"

text \<open>The line printed for an operation that is not in the gate table.\<close>

definition notice :: "string \<Rightarrow> string" where
  "notice op = op @ '' not counted towards evaluation. Not a valid from default gate tables''"

text \<open>
  The loop \<^verbatim>\<open>for gate in benchmark.processed_qasm\<close>. The state is the text printed so
  far and the dictionary \<^verbatim>\<open>qubit_depth\<close>.
\<close>

fun walk_gates ::
  "('g, 'q) Preprocess \<Rightarrow> 'g list \<Rightarrow> string list \<times> 'q qubit_depth \<Rightarrow> string list \<times> 'q qubit_depth"
where
  "walk_gates benchmark [] acc = acc"
| "walk_gates benchmark (gate # gates) (out, qubit_depth) =
     (let op = get_op benchmark gate in
      if op \<notin> set (GATE_TABLE benchmark)
      then walk_gates benchmark gates (out @ [notice op], qubit_depth)
      else walk_gates benchmark gates
             (out, fold count_qubit (get_qubit_id benchmark gate) qubit_depth))"

definition get_qubit_depths :: "('g, 'q) Preprocess \<Rightarrow> string list \<times> 'q qubit_depth" where
  "get_qubit_depths benchmark = walk_gates benchmark (processed_qasm benchmark) ([], [])"

text \<open>Python's \<^verbatim>\<open>max\<close> of a sequence: \<^verbatim>\<open>ValueError\<close> on the empty one.\<close>

fun py_max :: "nat list \<Rightarrow> error + nat" where
  "py_max [] = Inl ValueError"
| "py_max (x # xs) = Inr (fold max xs x)"

text \<open>
  \<^verbatim>\<open>get_maximum_qubit_depth\<close> recomputes the dictionary, takes the maximum of its values
  and the first key that holds it (element \<^verbatim>\<open>[0]\<close> of the list comprehension).
\<close>

definition get_maximum_qubit_depth ::
  "('g, 'q) Preprocess \<Rightarrow> string list \<times> (error + 'q \<times> nat)" where
  "get_maximum_qubit_depth benchmark =
     (let (out, qubit_depths) = get_qubit_depths benchmark in
      case py_max (map snd qubit_depths) of
        Inl e \<Rightarrow> (out, Inl e)
      | Inr max_value \<Rightarrow>
          (case map fst (filter (\<lambda>(k, v). v = max_value) qubit_depths) of
             [] \<Rightarrow> (out, Inl IndexError)
           | max_keys # _ \<Rightarrow> (out, Inr (max_keys, max_value))))"

text \<open>
  \<^verbatim>\<open>get_circuit_depth\<close> calls \<^verbatim>\<open>get_qubit_depths\<close> once for its output only (the result
  is dropped) and then \<^verbatim>\<open>get_maximum_qubit_depth\<close>, of which it keeps the second
  component.
\<close>

definition get_circuit_depth :: "('g, 'q) Preprocess \<Rightarrow> string list \<times> (error + nat)" where
  "get_circuit_depth benchmark =
     (let (out1, _) = get_qubit_depths benchmark;
          (out2, r) = get_maximum_qubit_depth benchmark
      in (out1 @ out2, case r of Inl e \<Rightarrow> Inl e | Inr (_, depth) \<Rightarrow> Inr depth))"

text \<open>
  The depth proxy as the specification words it: the operations whose name is in the
  gate table are the counted ones, every qubit id in the operand list of a counted
  operation is one touch, the counter of a qubit is the number of its touches, and the
  depth is the largest counter.
\<close>

definition counted_gates :: "('g, 'q) Preprocess \<Rightarrow> 'g list" where
  "counted_gates benchmark =
     filter (\<lambda>gate. get_op benchmark gate \<in> set (GATE_TABLE benchmark)) (processed_qasm benchmark)"

definition touches :: "('g, 'q) Preprocess \<Rightarrow> 'q list" where
  "touches benchmark = concat (map (get_qubit_id benchmark) (counted_gates benchmark))"

definition spec_counter :: "('g, 'q) Preprocess \<Rightarrow> 'q \<Rightarrow> nat" where
  "spec_counter benchmark q = count_list (touches benchmark) q"

definition spec_depth :: "('g, 'q) Preprocess \<Rightarrow> nat" where
  "spec_depth benchmark = Max (spec_counter benchmark ` set (touches benchmark))"

text \<open>The three-line program of the specification's example, for a gate table \<open>T\<close>.\<close>

definition example_program :: "string list \<Rightarrow> (string \<times> nat list, nat) Preprocess" where
  "example_program T =
     \<lparr>processed_qasm = [(''h'', [0]), (''cx'', [0, 1]), (''x'', [1])],
      get_op = fst, get_qubit_id = snd, GATE_TABLE = T\<rparr>"

subsection \<open>The metric dictionary (\<^verbatim>\<open>__init__\<close>, \<^verbatim>\<open>preprocess_benchmarks\<close>)\<close>

text \<open>
  \<^verbatim>\<open>metric_data[benchmark]\<close> is a dictionary with the five sample lists and, once the
  statistics are computed, the key \<^verbatim>\<open>"aggregate"\<close>. It is a record with one field for
  each key: \<^verbatim>\<open>"parsing/build_time (seconds)"\<close> is \<open>build_time\<close>, and likewise for the
  others; \<open>aggregate\<close> is \<open>None\<close> while the key is absent. The depth samples are the
  integers returned by \<^verbatim>\<open>get_circuit_depth\<close>.
\<close>

record stats =
  mean :: real
  median :: real
  range_stat :: "real \<times> real"
  variance :: real
  standard_deviation :: real

record metrics =
  total_time :: "real list"
  build_time :: "real list"
  transpile_time :: "real list"
  depth :: "nat list"
  memory_footprint :: "real list"
  aggregate :: "(string \<times> stats) list option"

record compiler_dict =
  compiler :: string
  version :: string
  optimization_level :: int

text \<open>
  The top-level dictionary \<^verbatim>\<open>self.metric_data\<close> holds three kinds of values under string
  keys: the compiler dictionary, the backend name and one metrics dictionary for each
  benchmark file name.
\<close>

datatype entry = Metadata compiler_dict | Backend string | Benchmark metrics

type_synonym metric_data = "(string \<times> entry) list"

text \<open>Line 114: the dictionary literal that \<^verbatim>\<open>__init__\<close> assigns to \<^verbatim>\<open>self.metric_data\<close>.\<close>

definition initial_metric_data :: "compiler_dict \<Rightarrow> string \<Rightarrow> metric_data" where
  "initial_metric_data cd backend = [(''metadata: '', Metadata cd), (''backend'', Backend backend)]"

definition metric_list :: "string list" where
  "metric_list =
     [''total_time (seconds)'', ''parsing/build_time (seconds)'', ''transpile_time (seconds)'',
      ''depth (gates)'', ''memory_footprint (MiB)'']"

text \<open>
  Lines 179 to 185: the entry of a benchmark whose parsing took \<open>build_time - start_time\<close>.
\<close>

definition new_metrics :: "real \<Rightarrow> real \<Rightarrow> metrics" where
  "new_metrics start_time build_time' =
     \<lparr>total_time = [], build_time = [fsub build_time' start_time], transpile_time = [],
      depth = [], memory_footprint = [], aggregate = None\<rparr>"

text \<open>
  What \<^verbatim>\<open>preprocess_benchmarks\<close> observes for one file of the benchmark directory: its
  name and the two clock readings around the parser.
\<close>

record load =
  file_name :: string
  load_start :: real
  load_end :: real

text \<open>
  The loop of \<^verbatim>\<open>preprocess_benchmarks\<close>, returning \<^verbatim>\<open>full_benchmark_list\<close> (its names) and
  the metric dictionary. With a compiler name other than the two known ones no branch
  binds \<^verbatim>\<open>circuit\<close>, and the \<^verbatim>\<open>append\<close> that reads it raises.
\<close>

fun preprocess_loop ::
  "compiler_dict \<Rightarrow> load list \<Rightarrow> string list \<times> metric_data \<Rightarrow> error + string list \<times> metric_data"
where
  "preprocess_loop cd [] acc = Inr acc"
| "preprocess_loop cd (l # ls) (full_benchmark_list, md) =
     (if file_name l = ''.DS_Store'' then preprocess_loop cd ls (full_benchmark_list, md)
      else if compiler cd \<noteq> ''pytket'' \<and> compiler cd \<noteq> ''qiskit'' then Inl UnboundLocalError
      else preprocess_loop cd ls
             (full_benchmark_list @ [file_name l],
              AList.update (file_name l) (Benchmark (new_metrics (load_start l) (load_end l))) md))"

definition preprocess_benchmarks ::
  "compiler_dict \<Rightarrow> string \<Rightarrow> load list \<Rightarrow> error + string list \<times> metric_data" where
  "preprocess_benchmarks cd backend benchmarks =
     preprocess_loop cd benchmarks ([], initial_metric_data cd backend)"

subsection \<open>One repetition (\<^verbatim>\<open>run_benchmark\<close>)\<close>

text \<open>
  What one call of \<^verbatim>\<open>run_benchmark\<close> observes: the memory difference returned by
  \<^verbatim>\<open>profile_func\<close>, the two clock readings around the timed compilation, and the
  preprocessed text of the compiled circuit.
\<close>

record ('g, 'q) observation =
  memory :: real
  start_time :: real
  end_time :: real
  processed_qasm_of :: "('g, 'q) Preprocess"

text \<open>Python's \<^verbatim>\<open>xs[-1]\<close>.\<close>

definition py_last :: "'a list \<Rightarrow> error + 'a" where
  "py_last xs = (if xs = [] then Inl IndexError else Inr (last xs))"

text \<open>
  \<^verbatim>\<open>run_benchmark\<close> on the entry of its benchmark. The total is the expression of lines
  340 to 343, \<^verbatim>\<open>end_time - start_time + +build[-1] + transpile[-1]\<close>, read after the
  transpile sample has been appended: a subtraction and two additions, from left to
  right, each rounded. An exception leaves the process, so no entry is returned with it.
\<close>

definition run_benchmark :: "metrics \<Rightarrow> ('g, 'q) observation \<Rightarrow> error + metrics" where
  "run_benchmark m ob =
     (let m1 = m\<lparr>memory_footprint := memory_footprint m @ [memory ob]\<rparr>;
          m2 = m1\<lparr>transpile_time := transpile_time m1 @ [fsub (end_time ob) (start_time ob)]\<rparr>
      in case py_last (build_time m2) of
           Inl e \<Rightarrow> Inl e
         | Inr b \<Rightarrow>
             (case py_last (transpile_time m2) of
                Inl e \<Rightarrow> Inl e
              | Inr t \<Rightarrow>
                  (let m3 = m2\<lparr>total_time := total_time m2 @
                              [fadd (fadd (fsub (end_time ob) (start_time ob)) b) t]\<rparr>
                   in case snd (get_circuit_depth (processed_qasm_of ob)) of
                        Inl e \<Rightarrow> Inl e
                      | Inr d \<Rightarrow> Inr (m3\<lparr>depth := depth m3 @ [d]\<rparr>))))"

subsection \<open>Aggregate statistics (\<^verbatim>\<open>calculate_aggregate_statistics\<close>)\<close>

text \<open>
  The six reductions are functions of numpy on arrays of binary64 numbers. The runner
  stores what they return; they are parameters here. \<^verbatim>\<open>np.min\<close> raises \<^verbatim>\<open>ValueError\<close> on
  an empty array (\<^verbatim>\<open>np.mean\<close> and \<^verbatim>\<open>np.median\<close> before it only warn).
\<close>

record numpy =
  np_mean :: "real list \<Rightarrow> real"
  np_median :: "real list \<Rightarrow> real"
  np_min :: "real list \<Rightarrow> real"
  np_max :: "real list \<Rightarrow> real"
  np_var :: "real list \<Rightarrow> real"
  np_std :: "real list \<Rightarrow> real"

text \<open>\<^verbatim>\<open>np.array(self.metric_data[benchmark_name][metric], dtype=float)\<close>.\<close>

definition samples :: "metrics \<Rightarrow> string \<Rightarrow> error + real list" where
  "samples m metric =
     (if metric = ''total_time (seconds)'' then Inr (total_time m)
      else if metric = ''parsing/build_time (seconds)'' then Inr (build_time m)
      else if metric = ''transpile_time (seconds)'' then Inr (transpile_time m)
      else if metric = ''depth (gates)'' then Inr (map real (depth m))
      else if metric = ''memory_footprint (MiB)'' then Inr (memory_footprint m)
      else Inl KeyError)"

definition aggregate_metric :: "numpy \<Rightarrow> real list \<Rightarrow> error + stats" where
  "aggregate_metric np xs =
     (if xs = [] then Inl ValueError
      else Inr \<lparr>mean = np_mean np xs, median = np_median np xs,
                range_stat = (np_min np xs, np_max np xs),
                variance = np_var np xs, standard_deviation = np_std np xs\<rparr>)"

fun aggregate_loop ::
  "numpy \<Rightarrow> metrics \<Rightarrow> string list \<Rightarrow> (string \<times> stats) list \<Rightarrow> error + (string \<times> stats) list"
where
  "aggregate_loop np m [] agg = Inr agg"
| "aggregate_loop np m (metric # rest) agg =
     (case samples m metric of
        Inl e \<Rightarrow> Inl e
      | Inr xs \<Rightarrow>
          (case aggregate_metric np xs of
             Inl e \<Rightarrow> Inl e
           | Inr s \<Rightarrow> aggregate_loop np m rest (AList.update metric s agg)))"

definition calculate_aggregate_statistics :: "numpy \<Rightarrow> metrics \<Rightarrow> error + metrics" where
  "calculate_aggregate_statistics np m =
     (case aggregate_loop np m metric_list [] of
        Inl e \<Rightarrow> Inl e
      | Inr agg \<Rightarrow> Inr (m\<lparr>aggregate := Some agg\<rparr>))"

subsection \<open>All repetitions of one benchmark (the body of the loop of \<^verbatim>\<open>run_benchmarks\<close>)\<close>

fun repeat_benchmark :: "metrics \<Rightarrow> ('g, 'q) observation list \<Rightarrow> error + metrics" where
  "repeat_benchmark m [] = Inr m"
| "repeat_benchmark m (ob # obs) =
     (case run_benchmark m ob of
        Inl e \<Rightarrow> Inl e
      | Inr m' \<Rightarrow> repeat_benchmark m' obs)"

text \<open>
  \<^verbatim>\<open>for run_num in range(self.num_runs)\<close> followed by the statistics; \<open>obs i\<close> is what
  repetition \<open>i\<close> observes. \<^verbatim>\<open>range\<close> of a negative number is empty.
\<close>

definition run_case ::
  "numpy \<Rightarrow> int \<Rightarrow> (nat \<Rightarrow> ('g, 'q) observation) \<Rightarrow> metrics \<Rightarrow> error + metrics" where
  "run_case np num_runs obs m =
     (case repeat_benchmark m (map obs [0..<nat num_runs]) of
        Inl e \<Rightarrow> Inl e
      | Inr m' \<Rightarrow> calculate_aggregate_statistics np m')"

definition sample_lengths :: "metrics \<Rightarrow> nat list" where
  "sample_lengths m =
     [length (total_time m), length (build_time m), length (transpile_time m),
      length (depth m), length (memory_footprint m)]"

subsection \<open>Result files (\<^verbatim>\<open>list_files\<close>, \<^verbatim>\<open>delete_ds_store\<close>, \<^verbatim>\<open>save_results\<close>)\<close>

text \<open>
  A result file holds JSON text. What \<^verbatim>\<open>json.load\<close> makes of it is either a list of
  metric dictionaries (a dictionary is identified with the JSON object that
  \<^verbatim>\<open>json.dump\<close> writes for it), some other JSON value, or a decoding error.
\<close>

datatype content = JsonList "metric_data list" | JsonOther | NotJson

text \<open>
  A directory maps the names of its regular files to their contents (the code creates
  no subdirectory, and \<^verbatim>\<open>list_files\<close> filters them out). The file system maps the path
  of a directory to the directory, \<open>None\<close> where there is none.
\<close>

type_synonym directory = "(string \<times> content) list"

type_synonym filesystem = "string \<Rightarrow> directory option"

text \<open>
  \<^verbatim>\<open>save_results\<close> names the results directory in two ways: as
  \<^verbatim>\<open>os.path.join(os.path.dirname(__file__), "results")\<close> where it creates the directory
  and opens the result file (\<open>results_dir\<close>), and as the relative path \<^verbatim>\<open>"results"\<close> where
  it deletes \<^verbatim>\<open>.DS_Store\<close> and counts the files (\<open>cwd_results\<close>, the directory that the
  relative path resolves to). The two are the same directory when the process runs in
  the directory of \<^verbatim>\<open>runner.py\<close>.
\<close>

record paths =
  results_dir :: string
  cwd_results :: string

text \<open>The decimal numeral that an f-string prints for a natural number.\<close>

fun str_nat :: "nat \<Rightarrow> string" where
  "str_nat n =
     (if n < 10 then [''0123456789'' ! n]
      else str_nat (n div 10) @ [''0123456789'' ! (n mod 10)])"

declare str_nat.simps [simp del]

definition results_file :: "nat \<Rightarrow> string" where
  "results_file run_number = ''results_run'' @ str_nat run_number @ ''.json''"

definition list_files :: "string \<Rightarrow> filesystem \<Rightarrow> error + string list" where
  "list_files directory fs =
     (case fs directory of
        None \<Rightarrow> Inl FileNotFoundError
      | Some d \<Rightarrow> Inr (map fst d))"

definition delete_ds_store :: "string \<Rightarrow> filesystem \<Rightarrow> filesystem" where
  "delete_ds_store directory fs =
     (case fs directory of
        None \<Rightarrow> fs
      | Some d \<Rightarrow>
          if ''.DS_Store'' \<in> set (map fst d)
          then fs(directory \<mapsto> AList.delete ''.DS_Store'' d) else fs)"

text \<open>\<^verbatim>\<open>if not os.path.exists(results_dir): os.makedirs(results_dir)\<close>.\<close>

definition ensure_dir :: "string \<Rightarrow> filesystem \<Rightarrow> filesystem" where
  "ensure_dir directory fs = (if fs directory = None then fs(directory \<mapsto> []) else fs)"

text \<open>\<^verbatim>\<open>open(path, "r")\<close> and \<^verbatim>\<open>json.load\<close>; \<^verbatim>\<open>open(path, "w")\<close> and \<^verbatim>\<open>json.dump\<close>.\<close>

definition read_file :: "filesystem \<Rightarrow> string \<Rightarrow> string \<Rightarrow> error + content" where
  "read_file fs directory name =
     (case fs directory of
        None \<Rightarrow> Inl FileNotFoundError
      | Some d \<Rightarrow> (case map_of d name of None \<Rightarrow> Inl FileNotFoundError | Some c \<Rightarrow> Inr c))"

definition write_file :: "filesystem \<Rightarrow> string \<Rightarrow> string \<Rightarrow> content \<Rightarrow> error option \<times> filesystem" where
  "write_file fs directory name c =
     (case fs directory of
        None \<Rightarrow> (Some FileNotFoundError, fs)
      | Some d \<Rightarrow> (None, fs(directory \<mapsto> AList.update name c d)))"

text \<open>
  \<^verbatim>\<open>save_results\<close> returns the exception that ended it, if any, and the file system it
  leaves. \<^verbatim>\<open>data.append\<close> needs \<^verbatim>\<open>data\<close> to be a list.
\<close>

definition save_results ::
  "paths \<Rightarrow> string \<Rightarrow> metric_data \<Rightarrow> filesystem \<Rightarrow> error option \<times> filesystem" where
  "save_results p second_compiler_readout md fs =
     (let fs1 = ensure_dir (results_dir p) fs;
          fs2 = delete_ds_store (cwd_results p) fs1
      in case list_files (cwd_results p) fs2 of
           Inl e \<Rightarrow> (Some e, fs2)
         | Inr files \<Rightarrow>
             (let run_number = length files + 1 in
              if second_compiler_readout = ''true''
              then (case read_file fs2 (results_dir p) (results_file (run_number - 1)) of
                      Inl e \<Rightarrow> (Some e, fs2)
                    | Inr NotJson \<Rightarrow> (Some JSONDecodeError, fs2)
                    | Inr JsonOther \<Rightarrow> (Some AttributeError, fs2)
                    | Inr (JsonList data) \<Rightarrow>
                        write_file fs2 (results_dir p) (results_file (run_number - 1))
                          (JsonList (data @ [md])))
              else write_file fs2 (results_dir p) (results_file run_number) (JsonList [md])))"

text \<open>The files of a directory path, none where the directory does not exist.\<close>

definition files_of :: "filesystem \<Rightarrow> string \<Rightarrow> directory" where
  "files_of fs directory = (case fs directory of None \<Rightarrow> [] | Some d \<Rightarrow> d)"

subsection \<open>The whole run (\<^verbatim>\<open>run_benchmarks\<close>)\<close>

definition lookup_benchmark :: "metric_data \<Rightarrow> string \<Rightarrow> error + metrics" where
  "lookup_benchmark md benchmark_name =
     (case map_of md benchmark_name of
        None \<Rightarrow> Inl KeyError
      | Some (Benchmark m) \<Rightarrow> Inr m
      | Some _ \<Rightarrow> Inl TypeError)"

fun run_benchmarks_loop ::
  "numpy \<Rightarrow> int \<Rightarrow> (string \<Rightarrow> nat \<Rightarrow> ('g, 'q) observation) \<Rightarrow> string list \<Rightarrow> metric_data
     \<Rightarrow> error + metric_data"
where
  "run_benchmarks_loop np num_runs obs [] md = Inr md"
| "run_benchmarks_loop np num_runs obs (benchmark_name # rest) md =
     (case lookup_benchmark md benchmark_name of
        Inl e \<Rightarrow> Inl e
      | Inr m \<Rightarrow>
          (case run_case np num_runs (obs benchmark_name) m of
             Inl e \<Rightarrow> Inl e
           | Inr m' \<Rightarrow>
               run_benchmarks_loop np num_runs obs rest
                 (AList.update benchmark_name (Benchmark m') md)))"

definition run_benchmarks ::
  "numpy \<Rightarrow> paths \<Rightarrow> int \<Rightarrow> string \<Rightarrow> (string \<Rightarrow> nat \<Rightarrow> ('g, 'q) observation)
     \<Rightarrow> string list \<times> metric_data \<Rightarrow> filesystem \<Rightarrow> error option \<times> filesystem" where
  "run_benchmarks np p num_runs second_compiler_readout obs runner fs =
     (case run_benchmarks_loop np num_runs obs (fst runner) (snd runner) of
        Inl e \<Rightarrow> (Some e, fs)
      | Inr md \<Rightarrow> save_results p second_compiler_readout md fs)"

subsection \<open>Notions used in the statements\<close>

text \<open>
  The files that \<^verbatim>\<open>save_results\<close> counts: those of the results directory other than
  \<^verbatim>\<open>.DS_Store\<close>, which it deletes first.
\<close>

definition visible_files :: "filesystem \<Rightarrow> paths \<Rightarrow> directory" where
  "visible_files fs p = AList.delete ''.DS_Store'' (files_of fs (results_dir p))"

text \<open>The top-level keys of every record of a result file.\<close>

definition written_keys :: "filesystem \<Rightarrow> string \<Rightarrow> string \<Rightarrow> string list list" where
  "written_keys fs directory name =
     (case map_of (files_of fs directory) name of
        Some (JsonList mds) \<Rightarrow> map (map fst) mds
      | _ \<Rightarrow> [])"

text \<open>The total, build and transpile samples of an entry.\<close>

definition time_samples :: "metrics \<Rightarrow> real list \<times> real list \<times> real list" where
  "time_samples m = (total_time m, build_time m, transpile_time m)"





subsection \<open>Concrete inputs\<close>

text \<open>
  The inputs on which the model is run below. The reductions are instantiated with
  their textbook meaning on real numbers.
\<close>

definition exact_reductions :: numpy where
  "exact_reductions =
     \<lparr>np_mean = (\<lambda>xs. sum_list xs / real (length xs)),
      np_median = (\<lambda>xs. let s = sort xs; n = length s in
                     if odd n then s ! (n div 2) else (s ! (n div 2 - 1) + s ! (n div 2)) / 2),
      np_min = (\<lambda>xs. Min (set xs)),
      np_max = (\<lambda>xs. Max (set xs)),
      np_var = (\<lambda>xs. sum_list (map (\<lambda>x. \<bar>x - sum_list xs / real (length xs)\<bar>\<^sup>2) xs)
                     / real (length xs)),
      np_std = (\<lambda>xs. sqrt (sum_list (map (\<lambda>x. \<bar>x - sum_list xs / real (length xs)\<bar>\<^sup>2) xs)
                     / real (length xs)))\<rparr>"

text \<open>
  The reductions as numpy documents them (the mean is the sum divided by the number of
  elements, the variance is \<^verbatim>\<open>mean(abs(x - x.mean())**2)\<close>, the standard deviation its
  square root, the median of an even number of elements the mean of the two middle
  ones), with every operation rounded to binary64. The order in which numpy adds the
  elements of an array is not documented; here they are added from left to right.
\<close>

definition sum64 :: "real list \<Rightarrow> real" where
  "sum64 xs = (case xs of [] \<Rightarrow> 0 | x # ys \<Rightarrow> foldl fadd x ys)"

definition mean64 :: "real list \<Rightarrow> real" where
  "mean64 xs = fdiv (sum64 xs) (real (length xs))"

definition var64 :: "real list \<Rightarrow> real" where
  "var64 xs = mean64 (map (\<lambda>x. fmul \<bar>fsub x (mean64 xs)\<bar> \<bar>fsub x (mean64 xs)\<bar>) xs)"

definition binary64_reductions :: numpy where
  "binary64_reductions =
     \<lparr>np_mean = mean64,
      np_median = (\<lambda>xs. let s = sort xs; n = length s in
                     if odd n then s ! (n div 2) else mean64 [s ! (n div 2 - 1), s ! (n div 2)]),
      np_min = (\<lambda>xs. Min (set xs)),
      np_max = (\<lambda>xs. Max (set xs)),
      np_var = var64,
      np_std = (\<lambda>xs. binary64 (sqrt (var64 xs)))\<rparr>"

text \<open>
  The binary64 numbers nearest to 0.1 and to 1.1, and a repetition whose timed
  compilation starts at clock reading 0 and ends at the first of them.
\<close>

definition tenth :: real where
  "tenth = 7205759403792794 / 2 ^ 56"

definition eleven_tenths :: real where
  "eleven_tenths = 4953959590107546 / 2 ^ 52"

definition rounding_observations :: "nat \<Rightarrow> (string \<times> nat list, nat) observation" where
  "rounding_observations i =
     \<lparr>memory = 3, start_time = 0, end_time = tenth,
      processed_qasm_of = example_program [''h'', ''cx'', ''x'']\<rparr>"



definition example_observations :: "nat \<Rightarrow> (string \<times> nat list, nat) observation" where
  "example_observations i =
     \<lparr>memory = 3, start_time = 10 * real i, end_time = 10 * real i + 2 + real i,
      processed_qasm_of = example_program [''h'', ''cx'', ''x'']\<rparr>"

definition unknown_only :: "(string \<times> nat list, nat) Preprocess" where
  "unknown_only =
     \<lparr>processed_qasm = [(''barrier'', [0, 1]), (''foo'', [1])],
      get_op = fst, get_qubit_id = snd, GATE_TABLE = [''h'', ''cx'', ''x'']\<rparr>"

definition first_observation :: "(string \<times> nat list, nat) observation" where
  "first_observation =
     \<lparr>memory = 3, start_time = 10, end_time = 12,
      processed_qasm_of = example_program [''h'', ''cx'', ''x'']\<rparr>"

definition qiskit_O2 :: compiler_dict where
  "qiskit_O2 = \<lparr>compiler = ''qiskit'', version = ''1.0'', optimization_level = 2\<rparr>"

definition pytket_O2 :: compiler_dict where
  "pytket_O2 = \<lparr>compiler = ''pytket'', version = ''2.7.0'', optimization_level = 2\<rparr>"

definition example_primary :: metric_data where
  "example_primary = initial_metric_data qiskit_O2 ''heavy_hex''"

definition example_secondary :: metric_data where
  "example_secondary = initial_metric_data pytket_O2 ''heavy_hex''"

definition example_paths :: paths where
  "example_paths = \<lparr>results_dir = ''results'', cwd_results = ''results''\<rparr>"

definition one_run_fs :: filesystem where
  "one_run_fs =
     Map.empty(''results'' \<mapsto>
       [(''.DS_Store'', NotJson), (''results_run1.json'', JsonList [example_secondary])])"

definition ds_store_fs :: filesystem where
  "ds_store_fs = Map.empty(''results'' \<mapsto> [(''.DS_Store'', NotJson)])"

definition gap_fs :: filesystem where
  "gap_fs = Map.empty(''results'' \<mapsto> [(''results_run2.json'', JsonList [example_secondary])])"

definition example_loads :: "load list" where
  "example_loads =
     [\<lparr>file_name = ''.DS_Store'', load_start = 0, load_end = 0\<rparr>,
      \<lparr>file_name = ''bell.qasm'', load_start = 0, load_end = 1\<rparr>]"

definition example_runner :: "string list \<times> metric_data" where
  "example_runner =
     ([''bell.qasm''],
      [(''metadata: '', Metadata qiskit_O2), (''backend'', Backend ''heavy_hex''),
       (''bell.qasm'', Benchmark (new_metrics 0 1))])"

definition observations_of :: "string \<Rightarrow> nat \<Rightarrow> (string \<times> nat list, nat) observation" where
  "observations_of benchmark_name = example_observations"

section \<open>Rounding\<close>

lemma exponent_from_eq:
  assumes "e0 \<le> e" "e \<le> 971" "\<bar>x\<bar> < 2 ^ 53 * 2 powi e"
    and "e0 < e \<longrightarrow> 2 ^ 53 * 2 powi (e - 1) \<le> \<bar>x\<bar>"
  shows "exponent_from e0 x = e"
  using assms
proof (induction "nat (e - e0)" arbitrary: e0)
  case 0
  then have "e0 = e" by simp
  with 0 show ?case
    by (subst exponent_from.simps) simp
next
  case (Suc n)
  then have lt: "e0 < e" by linarith
  have "(2::real) powi e0 \<le> 2 powi (e - 1)"
    using lt by (intro power_int_increasing) simp_all
  then have "2 ^ 53 * 2 powi e0 \<le> (2 ^ 53 * 2 powi (e - 1) :: real)"
    by simp
  also have "\<dots> \<le> \<bar>x\<bar>"
    using Suc.prems(4) lt by simp
  finally have ge: "2 ^ 53 * 2 powi e0 \<le> \<bar>x\<bar>" .
  have "exponent_from e0 x = exponent_from (e0 + 1) x"
    using ge lt Suc.prems(2) by (subst exponent_from.simps) simp
  also have "\<dots> = e"
    using Suc.hyps(2) Suc.prems lt by (intro Suc.hyps(1)) auto
  finally show ?case .
qed

lemma binary64_eval:
  assumes "- 1074 \<le> e" "e \<le> 971" "\<bar>x\<bar> < 2 ^ 53 * 2 powi e"
    and "- 1074 < e \<longrightarrow> 2 ^ 53 * 2 powi (e - 1) \<le> \<bar>x\<bar>"
  shows "binary64 x = of_int (round_half_even (x / 2 powi e)) * 2 powi e"
  using exponent_from_eq [OF assms] by (simp add: binary64_def exponent_def)

section \<open>The depth analysis\<close>

subsection \<open>The dictionary of counters\<close>

lemma count_qubit_simps:
  "count_qubit q d =
     (case map_of d q of None \<Rightarrow> AList.update q 1 d | Some v \<Rightarrow> AList.update q (v + 1) d)"
  by (simp add: count_qubit_def Let_def update_conv' split: option.splits)

lemma map_of_count_qubit:
  "map_of (count_qubit q d) k =
     (if k = q then Some (case map_of d q of None \<Rightarrow> 1 | Some v \<Rightarrow> v + 1) else map_of d k)"
  by (simp add: count_qubit_simps update_conv' split: option.splits)

lemma distinct_count_qubit:
  "distinct (map fst d) \<Longrightarrow> distinct (map fst (count_qubit q d))"
  by (simp add: count_qubit_simps distinct_update split: option.splits)

lemma distinct_fold_count_qubit:
  "distinct (map fst d) \<Longrightarrow> distinct (map fst (fold count_qubit ts d))"
  by (induction ts arbitrary: d) (simp_all add: distinct_count_qubit)

lemma map_of_fold_count_qubit:
  "map_of (fold count_qubit ts d) q =
     (if count_list ts q = 0 then map_of d q
      else Some (count_list ts q + (case map_of d q of None \<Rightarrow> 0 | Some v \<Rightarrow> v)))"
proof (induction ts arbitrary: d)
  case Nil
  show ?case by simp
next
  case (Cons t ts)
  show ?case
    by (cases "map_of d q") (simp_all add: Cons.IH map_of_count_qubit)
qed

lemma walk_gates_snd:
  "snd (walk_gates b gs (out, d)) =
     fold count_qubit
       (concat (map (get_qubit_id b) (filter (\<lambda>g. get_op b g \<in> set (GATE_TABLE b)) gs))) d"
  by (induction gs arbitrary: out d) (simp_all add: Let_def)

lemma walk_gates_fst:
  "fst (walk_gates b gs (out, d)) =
     out @ map (\<lambda>g. notice (get_op b g)) (filter (\<lambda>g. get_op b g \<notin> set (GATE_TABLE b)) gs)"
  by (induction gs arbitrary: out d) (simp_all add: Let_def)

lemma snd_get_qubit_depths: "snd (get_qubit_depths b) = fold count_qubit (touches b) []"
  by (simp add: get_qubit_depths_def walk_gates_snd touches_def counted_gates_def)

lemma fst_get_qubit_depths:
  "fst (get_qubit_depths b) =
     map (\<lambda>g. notice (get_op b g))
       (filter (\<lambda>g. get_op b g \<notin> set (GATE_TABLE b)) (processed_qasm b))"
  by (simp add: get_qubit_depths_def walk_gates_fst)

lemma distinct_get_qubit_depths: "distinct (map fst (snd (get_qubit_depths b)))"
  by (simp add: snd_get_qubit_depths distinct_fold_count_qubit)

lemma map_of_get_qubit_depths:
  "map_of (snd (get_qubit_depths b)) q =
     (if q \<in> set (touches b) then Some (spec_counter b q) else None)"
  by (simp add: snd_get_qubit_depths map_of_fold_count_qubit spec_counter_def count_list_0_iff)

lemma in_get_qubit_depths_iff:
  "(k, v) \<in> set (snd (get_qubit_depths b)) \<longleftrightarrow> k \<in> set (touches b) \<and> v = spec_counter b k"
proof -
  have "(k, v) \<in> set (snd (get_qubit_depths b)) \<longleftrightarrow> map_of (snd (get_qubit_depths b)) k = Some v"
    using distinct_get_qubit_depths [of b] by simp
  then show ?thesis
    by (auto simp: map_of_get_qubit_depths)
qed

lemma values_get_qubit_depths:
  "set (map snd (snd (get_qubit_depths b))) = spec_counter b ` set (touches b)"
proof (rule set_eqI)
  fix v
  have "v \<in> set (map snd (snd (get_qubit_depths b))) \<longleftrightarrow>
          (\<exists>k. (k, v) \<in> set (snd (get_qubit_depths b)))"
    by force
  then show "v \<in> set (map snd (snd (get_qubit_depths b))) \<longleftrightarrow>
          v \<in> spec_counter b ` set (touches b)"
    unfolding in_get_qubit_depths_iff by blast
qed

lemma py_max_Max:
  assumes "xs \<noteq> []"
  shows "py_max xs = Inr (Max (set xs))"
proof (cases xs)
  case Nil
  with assms show ?thesis by simp
next
  case (Cons x ys)
  have "Max (set (x # ys)) = fold max ys x"
    by (rule Max.set_eq_fold)
  with Cons show ?thesis by simp
qed

lemma get_qubit_depths_Nil_iff: "snd (get_qubit_depths b) = [] \<longleftrightarrow> touches b = []"
proof -
  have "snd (get_qubit_depths b) = [] \<longleftrightarrow> set (map snd (snd (get_qubit_depths b))) = {}"
    by simp
  also have "\<dots> \<longleftrightarrow> touches b = []"
    unfolding values_get_qubit_depths by simp
  finally show ?thesis .
qed

subsection \<open>The maximum\<close>

lemma snd_get_maximum_qubit_depth:
  "snd (get_maximum_qubit_depth b) =
     (if touches b = [] then Inl ValueError
      else map_sum id (\<lambda>p. (fst p, spec_depth b)) (snd (get_maximum_qubit_depth b)))
   \<and> (touches b \<noteq> [] \<longrightarrow> (\<exists>k. snd (get_maximum_qubit_depth b) = Inr (k, spec_depth b)))"
proof (cases "touches b = []")
  case True
  then have "snd (get_qubit_depths b) = []"
    by (simp add: get_qubit_depths_Nil_iff)
  then have "snd (get_maximum_qubit_depth b) = Inl ValueError"
    by (simp add: get_maximum_qubit_depth_def case_prod_beta)
  with True show ?thesis by simp
next
  case False
  let ?d = "snd (get_qubit_depths b)"
  from False have ne: "map snd ?d \<noteq> []"
    by (simp add: get_qubit_depths_Nil_iff)
  have mx: "py_max (map snd ?d) = Inr (spec_depth b)"
    using py_max_Max [OF ne] by (simp only: values_get_qubit_depths spec_depth_def)
  have "Max (set (map snd ?d)) \<in> set (map snd ?d)"
    using ne by (intro Max_in) simp_all
  then have "spec_depth b \<in> set (map snd ?d)"
    unfolding values_get_qubit_depths spec_depth_def .
  then have "spec_depth b \<in> snd ` set ?d"
    by simp
  then obtain k where "(k, spec_depth b) \<in> set ?d"
    by force
  then have "filter (\<lambda>(k, v). v = spec_depth b) ?d \<noteq> []"
    by (force simp: filter_empty_conv)
  then obtain k' ks where ks: "map fst (filter (\<lambda>(k, v). v = spec_depth b) ?d) = k' # ks"
    by (cases "map fst (filter (\<lambda>(k, v). v = spec_depth b) ?d)") simp_all
  have "snd (get_maximum_qubit_depth b) = Inr (k', spec_depth b)"
    by (simp add: get_maximum_qubit_depth_def case_prod_beta mx ks)
  with False show ?thesis by simp
qed

lemma snd_get_circuit_depth:
  "snd (get_circuit_depth b) = (if touches b = [] then Inl ValueError else Inr (spec_depth b))"
proof (cases "touches b = []")
  case True
  then have "snd (get_maximum_qubit_depth b) = Inl ValueError"
    using snd_get_maximum_qubit_depth [of b] by simp
  with True show ?thesis
    by (simp add: get_circuit_depth_def case_prod_beta)
next
  case False
  then obtain k where "snd (get_maximum_qubit_depth b) = Inr (k, spec_depth b)"
    using snd_get_maximum_qubit_depth [of b] by blast
  with False show ?thesis
    by (simp add: get_circuit_depth_def case_prod_beta)
qed

lemma touches_skip:
  "get_op b g \<notin> set (GATE_TABLE b) \<Longrightarrow>
     touches (b\<lparr>processed_qasm := xs @ g # ys\<rparr>) = touches (b\<lparr>processed_qasm := xs @ ys\<rparr>)"
  by (simp add: touches_def counted_gates_def)

lemma spec_depth_cong: "touches b = touches b' \<Longrightarrow> spec_depth b = spec_depth b'"
  by (simp add: spec_depth_def spec_counter_def fun_eq_iff)

lemma example_depth: "snd (get_circuit_depth (example_program [''h'', ''cx'', ''x''])) = Inr 2"
  by (simp add: get_circuit_depth_def get_maximum_qubit_depth_def get_qubit_depths_def
        example_program_def count_qubit_def)

lemma fst_get_maximum_qubit_depth:
  "fst (get_maximum_qubit_depth b) = fst (get_qubit_depths b)"
  by (simp add: get_maximum_qubit_depth_def case_prod_beta split: sum.splits list.splits)

lemma fst_get_circuit_depth:
  "fst (get_circuit_depth b) = fst (get_qubit_depths b) @ fst (get_qubit_depths b)"
  by (simp add: get_circuit_depth_def case_prod_beta fst_get_maximum_qubit_depth)

text \<open>
  Claim C2. The dictionary built by the walk holds, for every qubit id touched by a
  counted operation, the number of its touches, and no other key; when some qubit is
  touched, \<^verbatim>\<open>get_circuit_depth\<close> returns the largest of these counters. For the program
  \<^verbatim>\<open>h q0; cx q0,q1; x q1\<close> and any gate table containing \<^verbatim>\<open>h\<close>, \<^verbatim>\<open>cx\<close> and \<^verbatim>\<open>x\<close> the
  counters of qubits 0 and 1 are both 2 and the depth is 2, with nothing printed.
\<close>

theorem depth_is_max_counter:
  "map_of (snd (get_qubit_depths benchmark)) q =
     (if q \<in> set (touches benchmark) then Some (spec_counter benchmark q) else None)
   \<and> (touches benchmark \<noteq> [] \<longrightarrow>
        snd (get_circuit_depth benchmark) = Inr (spec_depth benchmark))
   \<and> (set [''h'', ''cx'', ''x''] \<subseteq> set T \<longrightarrow>
        snd (get_qubit_depths (example_program T)) = [(0, 2), (1, 2)]
        \<and> get_circuit_depth (example_program T) = ([], Inr 2))"
proof -
  have ex: "get_circuit_depth (example_program T) = ([], Inr 2)
      \<and> snd (get_qubit_depths (example_program T)) = [(0, 2), (1, 2)]"
    if "set [''h'', ''cx'', ''x''] \<subseteq> set T"
    using that
    by (simp add: get_circuit_depth_def get_maximum_qubit_depth_def get_qubit_depths_def
        example_program_def count_qubit_def)
  show ?thesis
    using ex by (simp add: map_of_get_qubit_depths snd_get_circuit_depth)
qed

text \<open>The statement at the example program with a gate table of four names.\<close>

theorem depth_is_max_counter_witness:
  "touches (example_program [''h'', ''cx'', ''x'', ''rz'']) = [0, 0, 1, 1]
   \<and> map_of (snd (get_qubit_depths (example_program [''h'', ''cx'', ''x'', ''rz'']))) 0 = Some 2
   \<and> map_of (snd (get_qubit_depths (example_program [''h'', ''cx'', ''x'', ''rz'']))) 1 = Some 2
   \<and> spec_counter (example_program [''h'', ''cx'', ''x'', ''rz'']) 0 = 2
   \<and> spec_depth (example_program [''h'', ''cx'', ''x'', ''rz'']) = 2
   \<and> snd (get_circuit_depth (example_program [''h'', ''cx'', ''x'', ''rz''])) = Inr 2"
proof -
  let ?b = "example_program [''h'', ''cx'', ''x'', ''rz'']"
  have t: "touches ?b = [0, 0, 1, 1]"
    by (simp add: touches_def counted_gates_def example_program_def)
  have sub: "set [''h'', ''cx'', ''x''] \<subseteq> set [''h'', ''cx'', ''x'', ''rz'']"
    by simp
  have c: "spec_counter ?b 0 = 2"
    by (simp add: spec_counter_def t)
  from depth_is_max_counter [of ?b 0 "[''h'', ''cx'', ''x'', ''rz'']"]
       depth_is_max_counter [of ?b 1 "[''h'', ''cx'', ''x'', ''rz'']"] t sub c
  show ?thesis
    by simp
qed

text \<open>
  Claim C4, as the code has it. A line whose operation name is not in the gate table
  changes no counter, adds one notice to what \<^verbatim>\<open>get_qubit_depths\<close> prints (two to what
  \<^verbatim>\<open>get_circuit_depth\<close> prints, which walks the program twice), and leaves the outcome of
  \<^verbatim>\<open>get_circuit_depth\<close> as it is without the line: if the program without the line has
  depth \<open>d\<close>, so has the program with it. The outcome without the line may be the
  exception of the empty dictionary, which the added line does not remove.
\<close>

theorem unknown_gate_skipped:
  assumes "get_op b g \<notin> set (GATE_TABLE b)"
  shows "snd (get_qubit_depths (b\<lparr>processed_qasm := xs @ g # ys\<rparr>)) =
           snd (get_qubit_depths (b\<lparr>processed_qasm := xs @ ys\<rparr>))
       \<and> length (fst (get_qubit_depths (b\<lparr>processed_qasm := xs @ g # ys\<rparr>))) =
           length (fst (get_qubit_depths (b\<lparr>processed_qasm := xs @ ys\<rparr>))) + 1
       \<and> length (fst (get_circuit_depth (b\<lparr>processed_qasm := xs @ g # ys\<rparr>))) =
           length (fst (get_circuit_depth (b\<lparr>processed_qasm := xs @ ys\<rparr>))) + 2
       \<and> notice (get_op b g) \<in> set (fst (get_circuit_depth (b\<lparr>processed_qasm := xs @ g # ys\<rparr>)))
       \<and> snd (get_circuit_depth (b\<lparr>processed_qasm := xs @ g # ys\<rparr>)) =
           snd (get_circuit_depth (b\<lparr>processed_qasm := xs @ ys\<rparr>))
       \<and> (snd (get_circuit_depth (b\<lparr>processed_qasm := xs @ ys\<rparr>)) = Inr d \<longrightarrow>
            snd (get_circuit_depth (b\<lparr>processed_qasm := xs @ g # ys\<rparr>)) = Inr d)"
proof -
  let ?new = "b\<lparr>processed_qasm := xs @ g # ys\<rparr>" and ?old = "b\<lparr>processed_qasm := xs @ ys\<rparr>"
  have t: "touches ?new = touches ?old"
    using assms by (rule touches_skip)
  have 1: "snd (get_qubit_depths ?new) = snd (get_qubit_depths ?old)"
    by (simp only: snd_get_qubit_depths t)
  have 2: "length (fst (get_qubit_depths ?new)) = length (fst (get_qubit_depths ?old)) + 1"
    using assms by (simp add: fst_get_qubit_depths)
  then have 3: "length (fst (get_circuit_depth ?new)) = length (fst (get_circuit_depth ?old)) + 2"
    by (simp add: fst_get_circuit_depth)
  have "notice (get_op b g) \<in> set (fst (get_qubit_depths ?new))"
    using assms by (simp add: fst_get_qubit_depths)
  then have 4: "notice (get_op b g) \<in> set (fst (get_circuit_depth ?new))"
    by (simp add: fst_get_circuit_depth)
  have 5: "snd (get_circuit_depth ?new) = snd (get_circuit_depth ?old)"
    by (simp only: snd_get_circuit_depth t spec_depth_cong [OF t])
  from 1 2 3 4 5 show ?thesis by simp
qed

text \<open>An unknown line between \<^verbatim>\<open>h q0\<close> and \<^verbatim>\<open>x q0\<close>: the depth stays 2.\<close>

theorem unknown_gate_skipped_witness:
  "get_op (example_program [''h'', ''cx'', ''x'']) (''foo'', [0])
      \<notin> set (GATE_TABLE (example_program [''h'', ''cx'', ''x'']))
   \<and> snd (get_circuit_depth (example_program [''h'', ''cx'', ''x'']
        \<lparr>processed_qasm := [(''h'', [0])] @ [(''x'', [0])]\<rparr>)) = Inr 2
   \<and> snd (get_circuit_depth (example_program [''h'', ''cx'', ''x'']
        \<lparr>processed_qasm := [(''h'', [0])] @ (''foo'', [0]) # [(''x'', [0])]\<rparr>)) = Inr 2"
proof -
  let ?b = "example_program [''h'', ''cx'', ''x'']"
  have h: "get_op ?b (''foo'', [0]) \<notin> set (GATE_TABLE ?b)"
    by (simp add: example_program_def)
  have d: "snd (get_circuit_depth (?b\<lparr>processed_qasm := [(''h'', [0])] @ [(''x'', [0])]\<rparr>)) = Inr 2"
    by (simp add: get_circuit_depth_def get_maximum_qubit_depth_def get_qubit_depths_def
        example_program_def count_qubit_def)
  from unknown_gate_skipped [OF h, of "[(''h'', [0])]" "[(''x'', [0])]" 2] h d
  show ?thesis by simp
qed

text \<open>
  Added to the empty program, a line with an unknown operation name gives a run that
  ends with \<^verbatim>\<open>ValueError\<close>: the claim's "for any input \<dots> does not abort" fails there.
\<close>

theorem unknown_gate_abort_counterexample:
  "get_op (example_program [''h'', ''cx'', ''x'']) (''foo'', [0])
      \<notin> set (GATE_TABLE (example_program [''h'', ''cx'', ''x'']))
   \<and> snd (get_circuit_depth (example_program [''h'', ''cx'', ''x'']
        \<lparr>processed_qasm := [] @ (''foo'', [0]) # []\<rparr>)) = Inl ValueError"
  by (simp add: get_circuit_depth_def get_maximum_qubit_depth_def get_qubit_depths_def
      example_program_def)

text \<open>
  Claim C10. When no line of the program has its operation name in the gate table, the
  dictionary is empty, \<^verbatim>\<open>max\<close> of its values raises \<^verbatim>\<open>ValueError\<close> in
  \<^verbatim>\<open>get_maximum_qubit_depth\<close>, hence in \<^verbatim>\<open>get_circuit_depth\<close>, and \<^verbatim>\<open>run_benchmark\<close> ends
  with that exception instead of appending a depth.
\<close>

theorem no_counted_gate_raises:
  assumes "\<forall>gate \<in> set (processed_qasm benchmark).
             get_op benchmark gate \<notin> set (GATE_TABLE benchmark)"
  shows "snd (get_qubit_depths benchmark) = []
       \<and> snd (get_maximum_qubit_depth benchmark) = Inl ValueError
       \<and> snd (get_circuit_depth benchmark) = Inl ValueError
       \<and> (build_time m \<noteq> [] \<longrightarrow>
             run_benchmark m (ob\<lparr>processed_qasm_of := benchmark\<rparr>) = Inl ValueError)"
proof -
  from assms have "counted_gates benchmark = []"
    by (simp add: counted_gates_def filter_empty_conv)
  then have t: "touches benchmark = []"
    by (simp add: touches_def)
  then have 1: "snd (get_qubit_depths benchmark) = []"
    by (simp add: get_qubit_depths_Nil_iff)
  have 2: "snd (get_maximum_qubit_depth benchmark) = Inl ValueError"
    using snd_get_maximum_qubit_depth [of benchmark] t by simp
  have 3: "snd (get_circuit_depth benchmark) = Inl ValueError"
    by (simp add: snd_get_circuit_depth t)
  have 4: "run_benchmark m (ob\<lparr>processed_qasm_of := benchmark\<rparr>) = Inl ValueError"
    if "build_time m \<noteq> []"
    using that 3 by (simp add: run_benchmark_def py_last_def Let_def)
  from 1 2 3 4 show ?thesis by blast
qed

text \<open>A program of two lines, neither in the gate table.\<close>

theorem no_counted_gate_raises_witness:
  "processed_qasm unknown_only = [(''barrier'', [0, 1]), (''foo'', [1])]
   \<and> build_time (new_metrics 0 1) \<noteq> []
   \<and> snd (get_circuit_depth unknown_only) = Inl ValueError
   \<and> run_benchmark (new_metrics 0 1) (first_observation\<lparr>processed_qasm_of := unknown_only\<rparr>)
       = Inl ValueError"
proof -
  have h: "\<forall>gate \<in> set (processed_qasm unknown_only).
             get_op unknown_only gate \<notin> set (GATE_TABLE unknown_only)"
    by (simp add: unknown_only_def)
  have b: "build_time (new_metrics 0 1) \<noteq> []"
    by (simp add: new_metrics_def)
  have p: "processed_qasm unknown_only = [(''barrier'', [0, 1]), (''foo'', [1])]"
    by (simp add: unknown_only_def)
  from no_counted_gate_raises [OF h, of "new_metrics 0 1" first_observation] b p
  show ?thesis by simp
qed

section \<open>The samples of one benchmark\<close>

lemma run_benchmark_Inr:
  assumes "run_benchmark m ob = Inr m'"
  shows "build_time m \<noteq> []"
    and "\<exists>d. snd (get_circuit_depth (processed_qasm_of ob)) = Inr d \<and>
           m' = m\<lparr>memory_footprint := memory_footprint m @ [memory ob],
                  transpile_time := transpile_time m @ [fsub (end_time ob) (start_time ob)],
                  total_time := total_time m @
                    [fadd (fadd (fsub (end_time ob) (start_time ob)) (last (build_time m)))
                       (fsub (end_time ob) (start_time ob))],
                  depth := depth m @ [d]\<rparr>"
  using assms
  by (auto simp: run_benchmark_def py_last_def Let_def split: if_splits sum.splits)

lemma repeat_benchmark_samples:
  assumes "repeat_benchmark m obs = Inr m'"
  shows "build_time m' = build_time m
       \<and> aggregate m' = aggregate m
       \<and> memory_footprint m' = memory_footprint m @ map memory obs
       \<and> transpile_time m' = transpile_time m @ map (\<lambda>ob. fsub (end_time ob) (start_time ob)) obs
       \<and> total_time m' = total_time m @
           map (\<lambda>ob. fadd (fadd (fsub (end_time ob) (start_time ob)) (last (build_time m)))
                        (fsub (end_time ob) (start_time ob))) obs
       \<and> length (depth m') = length (depth m) + length obs"
  using assms
proof (induction obs arbitrary: m)
  case Nil
  then show ?case by simp
next
  case (Cons ob obs)
  from Cons.prems obtain m1 where s: "run_benchmark m ob = Inr m1"
    and r: "repeat_benchmark m1 obs = Inr m'"
    by (auto split: sum.splits)
  from run_benchmark_Inr(2) [OF s] obtain d where
    m1: "m1 = m\<lparr>memory_footprint := memory_footprint m @ [memory ob],
                  transpile_time := transpile_time m @ [fsub (end_time ob) (start_time ob)],
                  total_time := total_time m @
                    [fadd (fadd (fsub (end_time ob) (start_time ob)) (last (build_time m)))
                       (fsub (end_time ob) (start_time ob))],
                  depth := depth m @ [d]\<rparr>"
    by blast
  from Cons.IH [OF r] show ?case
    by (simp add: m1)
qed

lemma calculate_aggregate_statistics_Inr:
  assumes "calculate_aggregate_statistics np m = Inr m'"
  shows "\<exists>agg. m' = m\<lparr>aggregate := Some agg\<rparr>"
  using assms by (auto simp: calculate_aggregate_statistics_def split: sum.splits)

lemma run_case_Inr:
  assumes "run_case np num_runs obs m = Inr m'"
  shows "\<exists>m1 agg. repeat_benchmark m (map obs [0..<nat num_runs]) = Inr m1
            \<and> m' = m1\<lparr>aggregate := Some agg\<rparr>"
  using assms
  by (auto simp: run_case_def split: sum.splits dest: calculate_aggregate_statistics_Inr)

lemma example_run_returns:
  "\<exists>m'. run_case exact_reductions 2 example_observations (new_metrics 0 1) = Inr m'"
  by (simp add: run_case_def numeral_2_eq_2 run_benchmark_def py_last_def example_observations_def
      example_depth new_metrics_def calculate_aggregate_statistics_def metric_list_def samples_def
      aggregate_metric_def Let_def)

lemma fadd_commute: "fadd x y = fadd y x"
  by (simp add: fadd_def add.commute)

lemma fsub_tenth: "fsub tenth 0 = tenth"
  unfolding fsub_def tenth_def
  by (subst binary64_eval [where e = "- 56"]) (simp_all add: round_half_even_def)

lemma fsub_eleven_tenths: "fsub eleven_tenths 0 = eleven_tenths"
  unfolding fsub_def eleven_tenths_def
  by (subst binary64_eval [where e = "- 52"]) (simp_all add: round_half_even_def)

lemma rounded_total: "fadd (fadd tenth eleven_tenths) tenth = 5854679515581646 / 2 ^ 52"
proof -
  have "fadd tenth eleven_tenths = 5404319552844596 / 2 ^ 52"
    unfolding fadd_def tenth_def eleven_tenths_def
    by (subst binary64_eval [where e = "- 52"]) (simp_all add: round_half_even_def)
  moreover have "fadd (5404319552844596 / 2 ^ 52) tenth = 5854679515581646 / 2 ^ 52"
    unfolding fadd_def tenth_def
    by (subst binary64_eval [where e = "- 52"]) (simp_all add: round_half_even_def)
  ultimately show ?thesis by (simp only:)
qed

lemma rounded_build_plus_twice: "fadd eleven_tenths (fmul 2 tenth) = 5854679515581645 / 2 ^ 52"
proof -
  have "fmul 2 tenth = 7205759403792794 / 2 ^ 55"
    unfolding fmul_def tenth_def
    by (subst binary64_eval [where e = "- 55"]) (simp_all add: round_half_even_def)
  moreover have "fadd eleven_tenths (7205759403792794 / 2 ^ 55) = 5854679515581645 / 2 ^ 52"
    unfolding fadd_def eleven_tenths_def
    by (subst binary64_eval [where e = "- 52"]) (simp_all add: round_half_even_def)
  ultimately show ?thesis by (simp only:)
qed

lemma rounding_run:
  "map_sum id time_samples
      (run_case np 1 rounding_observations (new_metrics 0 eleven_tenths))
     = Inr ([5854679515581646 / 2 ^ 52], [eleven_tenths], [tenth])"
  by (simp add: run_case_def run_benchmark_def py_last_def rounding_observations_def
      example_depth new_metrics_def calculate_aggregate_statistics_def metric_list_def samples_def
      aggregate_metric_def time_samples_def Let_def fsub_tenth fsub_eleven_tenths rounded_total)

text \<open>
  Claim C1, as the code has it. After the repetitions of one benchmark, the build sample
  is the single one taken at load time, the transpile sample of repetition \<open>i\<close> is the
  rounded difference of its two clock readings, and the total sample of repetition \<open>i\<close>
  is the transpile sample plus the build sample plus the transpile sample again, added
  from left to right and rounded after each addition; this is also the build sample
  plus the transpile sample plus the transpile sample.
\<close>

theorem total_time_counts_transpile_twice:
  assumes "run_case np num_runs obs (new_metrics s b) = Inr m'"
    and "i < nat num_runs"
  shows "build_time m' = [fsub b s]
       \<and> transpile_time m' ! i = fsub (end_time (obs i)) (start_time (obs i))
       \<and> total_time m' ! i =
           fadd (fadd (transpile_time m' ! i) (build_time m' ! 0)) (transpile_time m' ! i)
       \<and> total_time m' ! i =
           fadd (fadd (build_time m' ! 0) (transpile_time m' ! i)) (transpile_time m' ! i)"
proof -
  from run_case_Inr [OF assms(1)] obtain m1 agg where
    r: "repeat_benchmark (new_metrics s b) (map obs [0..<nat num_runs]) = Inr m1"
    and m': "m' = m1\<lparr>aggregate := Some agg\<rparr>"
    by blast
  from repeat_benchmark_samples [OF r] assms(2) have
    "build_time m' = [fsub b s]
       \<and> transpile_time m' ! i = fsub (end_time (obs i)) (start_time (obs i))
       \<and> total_time m' ! i =
           fadd (fadd (transpile_time m' ! i) (build_time m' ! 0)) (transpile_time m' ! i)"
    by (simp add: m' new_metrics_def)
  moreover have "fadd (transpile_time m' ! i) (build_time m' ! 0) =
      fadd (build_time m' ! 0) (transpile_time m' ! i)"
    by (rule fadd_commute)
  ultimately show ?thesis
    by simp
qed

text \<open>
  One repetition after a build time of 1.1 (in binary64), with a transpilation from
  clock reading 0 to clock reading 0.1: the total is 5854679515581646 / 2 ^ 52, which
  prints as 1.3000000000000003.
\<close>

theorem total_time_counts_transpile_twice_witness:
  "\<exists>m'. run_case binary64_reductions 1 rounding_observations (new_metrics 0 eleven_tenths) = Inr m'
       \<and> build_time m' = [eleven_tenths] \<and> transpile_time m' ! 0 = tenth
       \<and> total_time m' ! 0 = fadd (fadd eleven_tenths tenth) tenth
       \<and> total_time m' ! 0 = 5854679515581646 / 2 ^ 52"
proof -
  from rounding_run [of binary64_reductions] obtain m' where
    r: "run_case binary64_reductions 1 rounding_observations (new_metrics 0 eleven_tenths) = Inr m'"
    by (cases "run_case binary64_reductions 1 rounding_observations (new_metrics 0 eleven_tenths)")
      simp_all
  have i: "0 < nat 1" by simp
  from total_time_counts_transpile_twice [OF r i] have
    "build_time m' = [eleven_tenths] \<and> transpile_time m' ! 0 = tenth
       \<and> total_time m' ! 0 = fadd (fadd eleven_tenths tenth) tenth
       \<and> total_time m' ! 0 = fadd (fadd tenth eleven_tenths) tenth"
    by (auto simp: rounding_observations_def fsub_tenth fsub_eleven_tenths)
  with r show ?thesis
    by (auto simp: rounded_total)
qed

text \<open>
  On the same run the total sample, 5854679515581646 / 2 ^ 52, is neither the build
  sample plus twice the transpile sample computed in binary64, which is
  5854679515581645 / 2 ^ 52 and prints as 1.3, nor that sum computed exactly.
\<close>

theorem total_time_rounding_counterexample:
  "map_sum id time_samples
      (run_case binary64_reductions 1 rounding_observations (new_metrics 0 eleven_tenths))
     = Inr ([5854679515581646 / 2 ^ 52], [eleven_tenths], [tenth])
   \<and> fadd eleven_tenths (fmul 2 tenth) = 5854679515581645 / 2 ^ 52
   \<and> fadd eleven_tenths (fmul 2 tenth) \<noteq> 5854679515581646 / 2 ^ 52
   \<and> eleven_tenths + 2 * tenth \<noteq> 5854679515581646 / 2 ^ 52"
  by (simp add: rounding_run rounded_build_plus_twice) (simp add: eleven_tenths_def tenth_def)

text \<open>
  Claim C3, as the code has it. After a run of one benchmark with \<^verbatim>\<open>num_runs\<close>
  repetitions, the total, transpile, depth and memory samples have \<^verbatim>\<open>num_runs\<close> elements
  each, and the build samples have exactly one, taken at load time.
\<close>

theorem sample_lengths_after_run:
  assumes "run_case np num_runs obs (new_metrics s b) = Inr m'"
  shows "length (total_time m') = nat num_runs
       \<and> length (transpile_time m') = nat num_runs
       \<and> length (depth m') = nat num_runs
       \<and> length (memory_footprint m') = nat num_runs
       \<and> length (build_time m') = 1"
proof -
  from run_case_Inr [OF assms(1)] obtain m1 agg where
    r: "repeat_benchmark (new_metrics s b) (map obs [0..<nat num_runs]) = Inr m1"
    and m': "m' = m1\<lparr>aggregate := Some agg\<rparr>"
    by blast
  from repeat_benchmark_samples [OF r] show ?thesis
    by (simp add: m' new_metrics_def)
qed

text \<open>The run of two repetitions returns, with these lengths.\<close>

theorem sample_lengths_after_run_witness:
  "\<exists>m'. run_case exact_reductions 2 example_observations (new_metrics 0 1) = Inr m'
       \<and> sample_lengths m' = [2, 1, 2, 2, 2]"
proof -
  from example_run_returns obtain m' where
    r: "run_case exact_reductions 2 example_observations (new_metrics 0 1) = Inr m'"
    by blast
  from sample_lengths_after_run [OF r] have "sample_lengths m' = [2, 1, 2, 2, 2]"
    by (simp add: sample_lengths_def)
  with r show ?thesis by blast
qed

text \<open>
  With two repetitions the lengths of the total, build, transpile, depth and memory
  samples are 2, 1, 2, 2, 2: the build samples do not have length 2.
\<close>

theorem sample_lengths_counterexample:
  "map_sum id sample_lengths (run_case exact_reductions 2 example_observations (new_metrics 0 1))
     = Inr [2, 1, 2, 2, 2]"
  by (simp add: run_case_def numeral_2_eq_2 run_benchmark_def py_last_def example_observations_def
      example_depth new_metrics_def calculate_aggregate_statistics_def metric_list_def samples_def
      aggregate_metric_def sample_lengths_def Let_def)

section \<open>Aggregate statistics\<close>


















section \<open>Result files\<close>

subsection \<open>File names\<close>

lemma str_nat_nonempty: "str_nat n \<noteq> []"
  by (subst str_nat.simps) simp

lemma digit_inj:
  assumes "a < 10" "b < 10" "''0123456789'' ! a = ''0123456789'' ! b"
  shows "a = b"
proof -
  have "distinct ''0123456789''" by simp
  moreover have "a < length ''0123456789''" "b < length ''0123456789''"
    using assms by simp_all
  ultimately show ?thesis
    using assms(3) by (simp only: nth_eq_iff_index_eq)
qed

lemma str_nat_inj: "str_nat m = str_nat n \<Longrightarrow> m = n"
proof (induction m arbitrary: n rule: str_nat.induct)
  case (1 m)
  show ?case
  proof (cases "m < 10")
    case mlt: True
    show ?thesis
    proof (cases "n < 10")
      case True
      with mlt "1.prems" show ?thesis
        by (simp add: str_nat.simps [of m] str_nat.simps [of n] digit_inj)
    next
      case False
      with mlt "1.prems" str_nat_nonempty [of "n div 10"] show ?thesis
        by (simp add: str_nat.simps [of m] str_nat.simps [of n])
    qed
  next
    case mge: False
    show ?thesis
    proof (cases "n < 10")
      case True
      with mge "1.prems" str_nat_nonempty [of "m div 10"] show ?thesis
        by (simp add: str_nat.simps [of m] str_nat.simps [of n])
    next
      case False
      with mge "1.prems" have a: "str_nat (m div 10) = str_nat (n div 10)"
        and b: "''0123456789'' ! (m mod 10) = ''0123456789'' ! (n mod 10)"
        by (simp_all add: str_nat.simps [of m] str_nat.simps [of n])
      from "1.IH" [OF mge a] have d: "m div 10 = n div 10" .
      have "m mod 10 = n mod 10"
        using b by (intro digit_inj) simp_all
      with d show ?thesis
        by (metis div_mult_mod_eq)
    qed
  qed
qed

lemma results_file_inj: "results_file m = results_file n \<Longrightarrow> m = n"
  by (simp add: results_file_def str_nat_inj)

lemma results_file_inj_on: "inj_on results_file A"
  by (rule inj_onI) (rule results_file_inj)

lemma results_file_not_ds_store: "results_file n \<noteq> ''.DS_Store''"
  by (simp add: results_file_def)

subsection \<open>Saving\<close>

lemma tidy_same_dir:
  "delete_ds_store r (ensure_dir r fs) = fs(r \<mapsto> AList.delete ''.DS_Store'' (files_of fs r))"
proof (cases "fs r")
  case None
  then show ?thesis
    by (simp add: delete_ds_store_def ensure_dir_def files_of_def)
next
  case (Some d)
  then have "fs(r \<mapsto> d) = fs"
    by (simp add: map_upd_triv)
  with Some show ?thesis
    by (simp add: delete_ds_store_def ensure_dir_def files_of_def)
qed

lemma save_results_primary_eq:
  assumes "second_compiler_readout \<noteq> ''true''" and "cwd_results p = results_dir p"
  shows "save_results p second_compiler_readout md fs =
           (None, fs(results_dir p \<mapsto>
              AList.update (results_file (Suc (length (visible_files fs p)))) (JsonList [md])
                (visible_files fs p)))"
  using assms
  by (simp add: save_results_def tidy_same_dir list_files_def write_file_def visible_files_def)

lemma save_results_secondary_eq:
  assumes "cwd_results p = results_dir p"
    and "map_of (visible_files fs p) (results_file (length (visible_files fs p))) = Some (JsonList data)"
  shows "save_results p ''true'' md fs =
           (None, fs(results_dir p \<mapsto>
              AList.update (results_file (length (visible_files fs p))) (JsonList (data @ [md]))
                (visible_files fs p)))"
  using assms
  by (simp add: save_results_def tidy_same_dir list_files_def write_file_def read_file_def
      visible_files_def)

lemma update_absent: "k \<notin> set (map fst al) \<Longrightarrow> AList.update k v al = al @ [(k, v)]"
  by (induction al) auto

lemma delete_absent: "k \<notin> set (map fst al) \<Longrightarrow> AList.delete k al = al"
  by simp

lemma ds_store_not_visible: "''.DS_Store'' \<notin> set (map fst (visible_files fs p))"
  using delete_notin_dom [of "''.DS_Store''" "files_of fs (results_dir p)"]
  by (simp add: visible_files_def)

lemma read_file_absent:
  assumes "name \<notin> set (map fst (files_of fs r))"
  shows "read_file fs r name = Inl FileNotFoundError"
proof -
  from assms have "map_of (files_of fs r) name = None"
    by (simp add: map_of_eq_None_iff)
  then show ?thesis
    by (cases "fs r") (simp_all add: read_file_def files_of_def)
qed

lemma tidy_keys:
  "set (map fst (files_of (delete_ds_store c (ensure_dir r fs)) q)) \<subseteq> set (map fst (files_of fs q))"
  using dom_delete_subset [of "''.DS_Store''"]
  by (auto simp: delete_ds_store_def ensure_dir_def files_of_def split: option.splits if_splits)

lemma tidy_files:
  "map_of (files_of (delete_ds_store c (ensure_dir r fs)) q) name = Some v \<Longrightarrow>
     map_of (files_of fs q) name = Some v"
  by (auto simp: delete_ds_store_def ensure_dir_def files_of_def delete_conv'
      split: option.splits if_splits)

lemma save_results_secondary_absent:
  assumes "\<forall>k. results_file k \<notin> set (map fst (files_of fs (results_dir p)))"
  shows "save_results p ''true'' md fs =
           (Some FileNotFoundError, delete_ds_store (cwd_results p) (ensure_dir (results_dir p) fs))"
proof -
  let ?fs2 = "delete_ds_store (cwd_results p) (ensure_dir (results_dir p) fs)"
  have "results_file k \<notin> set (map fst (files_of ?fs2 (results_dir p)))" for k
    using assms tidy_keys [of "cwd_results p" "results_dir p" fs "results_dir p"] by blast
  then have "read_file ?fs2 (results_dir p) (results_file k) = Inl FileNotFoundError" for k
    by (rule read_file_absent)
  then show ?thesis
    by (simp add: save_results_def list_files_def Let_def split: option.splits)
qed

text \<open>
  Claim C5, as the code has it. Let the process run in the directory of \<^verbatim>\<open>runner.py\<close>,
  and let the name that the primary save chooses, \<^verbatim>\<open>results_run<n + 1>.json\<close> for \<open>n\<close> files
  in the results directory, be free (as it is when the files are \<^verbatim>\<open>results_run1.json\<close> to
  \<^verbatim>\<open>results_run<n>.json\<close>). Then saving a primary record with a flag other than \<^verbatim>\<open>"true"\<close>
  and next a secondary record with the flag \<^verbatim>\<open>"true"\<close> both succeed, and the file that the
  primary save created holds the list of the primary record followed by the secondary
  record.
\<close>

theorem primary_then_secondary:
  assumes "second_compiler_readout \<noteq> ''true''"
    and "cwd_results p = results_dir p"
    and "results_file (Suc (length (visible_files fs p))) \<notin> set (map fst (visible_files fs p))"
  shows "fst (save_results p second_compiler_readout primary fs) = None
       \<and> fst (save_results p ''true'' secondary
                (snd (save_results p second_compiler_readout primary fs))) = None
       \<and> map_of (files_of (snd (save_results p ''true'' secondary
                   (snd (save_results p second_compiler_readout primary fs)))) (results_dir p))
             (results_file (Suc (length (visible_files fs p))))
           = Some (JsonList [primary, secondary])"
proof -
  let ?d = "visible_files fs p" and ?r = "results_dir p"
  let ?name = "results_file (Suc (length (visible_files fs p)))"
  let ?fs1 = "fs(?r \<mapsto> ?d @ [(?name, JsonList [primary])])"
  have 1: "save_results p second_compiler_readout primary fs = (None, ?fs1)"
    using assms by (simp add: save_results_primary_eq update_absent)
  have "''.DS_Store'' \<notin> set (map fst (?d @ [(?name, JsonList [primary])]))"
    using ds_store_not_visible [of fs p] results_file_not_ds_store [of "Suc (length ?d)"]
    by auto
  then have v: "visible_files ?fs1 p = ?d @ [(?name, JsonList [primary])]"
    by (simp add: visible_files_def files_of_def delete_absent)
  have m: "map_of (visible_files ?fs1 p) (results_file (length (visible_files ?fs1 p)))
             = Some (JsonList [primary])"
    using assms(3) by (simp add: v map_of_eq_None_iff [THEN iffD2] map_add_Some_iff)
  have 2: "save_results p ''true'' secondary ?fs1 =
             (None, ?fs1(?r \<mapsto> AList.update (results_file (length (visible_files ?fs1 p)))
                (JsonList ([primary] @ [secondary])) (visible_files ?fs1 p)))"
    using assms(2) m by (rule save_results_secondary_eq)
  show ?thesis
    by (simp add: 1 2 v files_of_def update_conv')
qed

text \<open>
  A results directory with \<^verbatim>\<open>.DS_Store\<close> and one earlier result file: the pair is written
  to \<^verbatim>\<open>results_run2.json\<close>.
\<close>

theorem primary_then_secondary_witness:
  "fst (save_results example_paths ''false'' example_primary one_run_fs) = None
   \<and> fst (save_results example_paths ''true'' example_secondary
            (snd (save_results example_paths ''false'' example_primary one_run_fs))) = None
   \<and> map_of (files_of (snd (save_results example_paths ''true'' example_secondary
               (snd (save_results example_paths ''false'' example_primary one_run_fs)))) ''results'')
         ''results_run2.json''
       = Some (JsonList [example_primary, example_secondary])"
proof -
  have v: "visible_files one_run_fs example_paths =
             [(''results_run1.json'', JsonList [example_secondary])]"
    by (simp add: visible_files_def files_of_def one_run_fs_def example_paths_def)
  have n: "results_file (Suc (Suc 0)) = ''results_run2.json''"
    by (simp add: results_file_def str_nat.simps)
  have h1: "''false'' \<noteq> ''true''" by simp
  have h2: "cwd_results example_paths = results_dir example_paths"
    by (simp add: example_paths_def)
  have h3: "results_file (Suc (length (visible_files one_run_fs example_paths)))
              \<notin> set (map fst (visible_files one_run_fs example_paths))"
    by (simp add: v n)
  have rd: "results_dir example_paths = ''results''"
    by (simp add: example_paths_def)
  from primary_then_secondary [OF h1 h2 h3, of example_primary example_secondary]
  show ?thesis
    by (simp add: v n rd)
qed

text \<open>
  A results directory whose only file is \<^verbatim>\<open>results_run2.json\<close>: the primary save counts
  one file and overwrites \<^verbatim>\<open>results_run2.json\<close>; the secondary save counts one file
  again, opens \<^verbatim>\<open>results_run1.json\<close> and ends with \<^verbatim>\<open>FileNotFoundError\<close>. No file holds
  the two records.
\<close>

theorem primary_then_secondary_counterexample:
  "files_of gap_fs ''results'' = [(''results_run2.json'', JsonList [example_secondary])]
   \<and> save_results example_paths ''false'' example_primary gap_fs =
       (None, gap_fs(''results'' \<mapsto> [(''results_run2.json'', JsonList [example_primary])]))
   \<and> save_results example_paths ''true'' example_secondary
         (snd (save_results example_paths ''false'' example_primary gap_fs)) =
       (Some FileNotFoundError,
        gap_fs(''results'' \<mapsto> [(''results_run2.json'', JsonList [example_primary])]))"
  by (simp add: save_results_def ensure_dir_def delete_ds_store_def list_files_def write_file_def
      read_file_def files_of_def gap_fs_def example_paths_def results_file_def str_nat.simps)

text \<open>
  Claim C6. When the results directory holds no file named \<^verbatim>\<open>results_run<k>.json\<close> (or
  does not exist), saving with the flag \<^verbatim>\<open>"true"\<close> ends with \<^verbatim>\<open>FileNotFoundError\<close>;
  afterwards the directory still holds no such file, and every file of the file
  system was there before with the same content.
\<close>

theorem secondary_without_primary:
  assumes "\<forall>k. results_file k \<notin> set (map fst (files_of fs (results_dir p)))"
  shows "fst (save_results p ''true'' md fs) = Some FileNotFoundError
       \<and> results_file k \<notin> set (map fst (files_of (snd (save_results p ''true'' md fs)) (results_dir p)))
       \<and> (map_of (files_of (snd (save_results p ''true'' md fs)) q) name = Some c \<longrightarrow>
            map_of (files_of fs q) name = Some c)"
proof -
  have "results_file k \<notin> set (map fst (files_of fs (results_dir p)))"
    using assms by blast
  then show ?thesis
    using tidy_keys [of "cwd_results p" "results_dir p" fs "results_dir p"]
      tidy_files [of "cwd_results p" "results_dir p" fs q name c]
    by (auto simp: save_results_secondary_absent [OF assms])
qed

text \<open>A results directory that holds only \<^verbatim>\<open>.DS_Store\<close>.\<close>

theorem secondary_without_primary_witness:
  "fst (save_results example_paths ''true'' example_secondary ds_store_fs) = Some FileNotFoundError
   \<and> ''results_run0.json'' \<notin> set (map fst (files_of
         (snd (save_results example_paths ''true'' example_secondary ds_store_fs)) ''results''))
   \<and> map_of (files_of ds_store_fs ''results'') ''.DS_Store'' = Some NotJson"
proof -
  have h: "\<forall>k. results_file k \<notin> set (map fst (files_of ds_store_fs (results_dir example_paths)))"
    by (simp add: files_of_def ds_store_fs_def example_paths_def results_file_def)
  have n: "results_file 0 = ''results_run0.json''"
    by (simp add: results_file_def str_nat.simps)
  have rd: "results_dir example_paths = ''results''"
    by (simp add: example_paths_def)
  have f: "map_of (files_of ds_store_fs ''results'') ''.DS_Store'' = Some NotJson"
    by (simp add: files_of_def ds_store_fs_def)
  from secondary_without_primary [OF h, of example_secondary 0 "''results''" "''.DS_Store''" NotJson]
  show ?thesis
    by (simp add: n rd f)
qed

text \<open>
  Claim C7, as the code has it. With a flag other than \<^verbatim>\<open>"true"\<close>, and the process
  running in the directory of \<^verbatim>\<open>runner.py\<close>, the save succeeds and writes the
  one-element list of the record to the file whose index is one more than the number
  of files of the results directory (\<^verbatim>\<open>.DS_Store\<close> aside). When these files are exactly
  \<^verbatim>\<open>results_run1.json\<close> to \<^verbatim>\<open>results_run<k>.json\<close>, that index is \<open>k + 1\<close>, the file is new
  and the others are kept as they were.
\<close>

theorem primary_file_index_is_file_count:
  assumes "second_compiler_readout \<noteq> ''true''" and "cwd_results p = results_dir p"
  shows "save_results p second_compiler_readout md fs =
           (None, fs(results_dir p \<mapsto>
              AList.update (results_file (Suc (length (visible_files fs p)))) (JsonList [md])
                (visible_files fs p)))
       \<and> (distinct (map fst (visible_files fs p))
            \<and> set (map fst (visible_files fs p)) = results_file ` {1..k} \<longrightarrow>
          length (visible_files fs p) = k
          \<and> results_file (Suc k) \<notin> set (map fst (visible_files fs p))
          \<and> files_of (snd (save_results p second_compiler_readout md fs)) (results_dir p) =
              visible_files fs p @ [(results_file (Suc k), JsonList [md])])"
proof -
  note eq = save_results_primary_eq [OF assms, of md fs]
  have "length (visible_files fs p) = k
      \<and> results_file (Suc k) \<notin> set (map fst (visible_files fs p))
      \<and> files_of (snd (save_results p second_compiler_readout md fs)) (results_dir p) =
          visible_files fs p @ [(results_file (Suc k), JsonList [md])]"
    if d: "distinct (map fst (visible_files fs p))"
      and s: "set (map fst (visible_files fs p)) = results_file ` {1..k}"
  proof -
    have "length (map fst (visible_files fs p)) = card (results_file ` {1..k})"
      using distinct_card [OF d] s by simp
    also have "\<dots> = k"
      by (simp add: card_image results_file_inj_on)
    finally have l: "length (visible_files fs p) = k"
      by simp
    have n: "results_file (Suc k) \<notin> set (map fst (visible_files fs p))"
      unfolding s using results_file_inj by fastforce
    from l n show ?thesis
      by (simp add: eq files_of_def update_absent)
  qed
  with eq show ?thesis by blast
qed

text \<open>After \<^verbatim>\<open>results_run1.json\<close> comes \<^verbatim>\<open>results_run2.json\<close>.\<close>

theorem primary_file_index_is_file_count_witness:
  "save_results example_paths ''false'' example_primary one_run_fs =
     (None, one_run_fs(''results'' \<mapsto>
        [(''results_run1.json'', JsonList [example_secondary]),
         (''results_run2.json'', JsonList [example_primary])]))
   \<and> files_of (snd (save_results example_paths ''false'' example_primary one_run_fs)) ''results'' =
       [(''results_run1.json'', JsonList [example_secondary]),
        (''results_run2.json'', JsonList [example_primary])]"
proof -
  have v: "visible_files one_run_fs example_paths =
             [(''results_run1.json'', JsonList [example_secondary])]"
    by (simp add: visible_files_def files_of_def one_run_fs_def example_paths_def)
  have n1: "results_file (Suc 0) = ''results_run1.json''"
    by (simp add: results_file_def str_nat.simps)
  have n2: "results_file (Suc (Suc 0)) = ''results_run2.json''"
    by (simp add: results_file_def str_nat.simps)
  have h1: "''false'' \<noteq> ''true''" by simp
  have h2: "cwd_results example_paths = results_dir example_paths"
    by (simp add: example_paths_def)
  have rd: "results_dir example_paths = ''results''"
    by (simp add: example_paths_def)
  have d: "distinct (map fst (visible_files one_run_fs example_paths))"
    by (simp add: v)
  have s: "set (map fst (visible_files one_run_fs example_paths)) = results_file ` {1..Suc 0}"
    by (simp add: v n1)
  from primary_file_index_is_file_count [OF h1 h2, of example_primary one_run_fs "Suc 0"] d s
  show ?thesis
    by (simp add: v n1 n2 rd files_of_def)
qed

text \<open>
  A results directory whose only file is \<^verbatim>\<open>results_run2.json\<close>: the index chosen is
  1 + 1 = 2, not one past the highest index, and the existing file is overwritten.
\<close>

theorem primary_file_index_counterexample:
  "files_of gap_fs ''results'' = [(''results_run2.json'', JsonList [example_secondary])]
   \<and> files_of (snd (save_results example_paths ''false'' example_primary gap_fs)) ''results''
       = [(''results_run2.json'', JsonList [example_primary])]"
  by (simp add: save_results_def ensure_dir_def delete_ds_store_def list_files_def write_file_def
      files_of_def gap_fs_def example_paths_def results_file_def str_nat.simps)

section \<open>The keys of a persisted record\<close>

text \<open>
  Claim C9 against the code. The dictionary that \<^verbatim>\<open>__init__\<close> builds has the keys
  \<^verbatim>\<open>"metadata: "\<close> (with a colon and a space) and \<^verbatim>\<open>"backend"\<close>; it has no key
  \<^verbatim>\<open>"metadata"\<close>. The record that a run over the benchmark \<^verbatim>\<open>bell.qasm\<close> writes to
  \<^verbatim>\<open>results_run1.json\<close> has the keys \<^verbatim>\<open>"metadata: "\<close>, \<^verbatim>\<open>"backend"\<close> and \<^verbatim>\<open>"bell.qasm"\<close>.
\<close>

theorem metadata_key_has_trailing_colon:
  "map fst (initial_metric_data cd backend) = [''metadata: '', ''backend'']
   \<and> map_of (initial_metric_data cd backend) ''metadata'' = None
   \<and> preprocess_benchmarks qiskit_O2 ''heavy_hex'' example_loads = Inr example_runner
   \<and> written_keys
        (snd (run_benchmarks exact_reductions example_paths 2 ''false'' observations_of
               example_runner Map.empty))
        ''results'' ''results_run1.json''
       = [[''metadata: '', ''backend'', ''bell.qasm'']]"
proof -
  have 1: "map fst (initial_metric_data cd backend) = [''metadata: '', ''backend'']"
    by (simp add: initial_metric_data_def)
  have 2: "map_of (initial_metric_data cd backend) ''metadata'' = None"
    by (simp add: initial_metric_data_def)
  have 3: "preprocess_benchmarks qiskit_O2 ''heavy_hex'' example_loads = Inr example_runner"
    by (simp add: preprocess_benchmarks_def example_loads_def example_runner_def qiskit_O2_def
        initial_metric_data_def)
  from example_run_returns obtain m' where
    r: "run_case exact_reductions 2 example_observations (new_metrics 0 1) = Inr m'"
    by blast
  have l: "run_benchmarks_loop exact_reductions 2 observations_of (fst example_runner)
             (snd example_runner)
           = Inr [(''metadata: '', Metadata qiskit_O2), (''backend'', Backend ''heavy_hex''),
                  (''bell.qasm'', Benchmark m')]"
    by (simp add: example_runner_def lookup_benchmark_def observations_of_def r)
  have 4: "written_keys
        (snd (run_benchmarks exact_reductions example_paths 2 ''false'' observations_of
               example_runner Map.empty))
        ''results'' ''results_run1.json''
       = [[''metadata: '', ''backend'', ''bell.qasm'']]"
    by (simp add: run_benchmarks_def l save_results_def ensure_dir_def delete_ds_store_def
        list_files_def write_file_def files_of_def example_paths_def results_file_def
        str_nat.simps written_keys_def)
  from 1 2 3 4 show ?thesis by simp
qed

end
